theory Spec2Isabelle
  imports Main
begin

section \<open>The source code model of the disassembly view\<close>

text \<open>
  A shallow embedding of \<^verbatim>\<open>src/models/sourcecodemodel.cpp\<close>: the table model that
  shows the source lines of one symbol next to the costs of the instructions attributed
  to each line. The member variables of the C++ class are the fields of a record, every
  member function takes the record and returns the updated one, and the file system is
  a parameter of the load.
\<close>

subsection \<open>Machine integers\<close>

text \<open>
  A C++ \<^verbatim>\<open>int\<close> is modelled as an \<^typ>\<open>int\<close> in the range of 32 bits. The three
  places where the source computes with values that the caller chooses
  (\<^verbatim>\<open>minLineNumber - 1\<close>, \<^verbatim>\<open>index.row() + m_lineOffset\<close> and
  \<^verbatim>\<open>COLUMN_COUNT + m_numTypes\<close>) wrap around as two's complement hardware does.
\<close>

definition INT_MAX :: int where
  "INT_MAX = 2147483647"

definition INT_MIN :: int where
  "INT_MIN = - 2147483648"

definition in_int32 :: "int \<Rightarrow> bool" where
  "in_int32 x = (INT_MIN \<le> x \<and> x \<le> INT_MAX)"

definition int32 :: "int \<Rightarrow> int" where
  "int32 x = (x + 2147483648) mod 4294967296 - 2147483648"

definition add32 :: "int \<Rightarrow> int \<Rightarrow> int" where
  "add32 a b = int32 (a + b)"

definition sub32 :: "int \<Rightarrow> int \<Rightarrow> int" where
  "sub32 a b = int32 (a - b)"

subsection \<open>Data of the collaborators\<close>

text \<open>
  Modelled from the spec: the symbol identity. The declaration of \<^verbatim>\<open>Data::Symbol\<close> is
  not part of the source file; the model keeps the name that identifies the symbol and
  the human-readable label that the load puts into row 0.
\<close>

record Symbol =
  symbol_name :: string
  prettySymbol :: string

text \<open>
  Modelled from the spec: one instruction entry of the disassembly, with its address
  (an unsigned number, used as a key only), its text and the source line it was
  resolved to (0 when there is none), and the disassembly output as a whole.
\<close>

record DisassemblyLine =
  addr :: nat
  disassembly :: string
  sourceCodeLine :: int

record DisassemblyOutput =
  symbol :: Symbol
  sourceFileName :: string
  disassemblyLines :: "DisassemblyLine list"

text \<open>
  Modelled from the spec: the cost table (\<^verbatim>\<open>Data::Costs\<close>). Per cost type it holds a
  mapping from an id (here a source line number) to an accumulated cost, where an id
  never added to has cost zero, and the grand total of the type. Adding a cost vector
  to an id adds its component of every type to what the id already has.
\<close>

type_synonym ItemCost = "int list"

record Costs =
  typeNames :: "string list"
  costs :: "(int \<Rightarrow> int) list"
  totalCosts :: "int list"

definition emptyCosts :: Costs where
  "emptyCosts = \<lparr>typeNames = [], costs = [], totalCosts = []\<rparr>"

definition numTypes :: "Costs \<Rightarrow> int" where
  "numTypes c = int (length (typeNames c))"

definition initializeCostsFrom :: "Costs \<Rightarrow> Costs \<Rightarrow> Costs" where
  "initializeCostsFrom rhs c =
     c\<lparr>typeNames := typeNames rhs,
       costs := replicate (length (typeNames rhs)) (\<lambda>_. 0),
       totalCosts := totalCosts rhs\<rparr>"

definition itemAt :: "ItemCost \<Rightarrow> nat \<Rightarrow> int" where
  "itemAt ic t = (if t < length ic then ic ! t else 0)"

definition Costs_add :: "int \<Rightarrow> ItemCost \<Rightarrow> Costs \<Rightarrow> Costs" where
  "Costs_add ident ic c =
     c\<lparr>costs := map (\<lambda>t. (costs c ! t)(ident := (costs c ! t) ident + itemAt ic t))
                    [0..<length (costs c)]\<rparr>"

definition Costs_cost :: "Costs \<Rightarrow> int \<Rightarrow> int \<Rightarrow> int" where
  "Costs_cost c t ident =
     (if 0 \<le> t \<and> nat t < length (costs c) then (costs c ! nat t) ident else 0)"

definition Costs_totalCost :: "Costs \<Rightarrow> int \<Rightarrow> int" where
  "Costs_totalCost c t =
     (if 0 \<le> t \<and> nat t < length (totalCosts c) then totalCosts c ! nat t else 0)"

text \<open>
  Modelled from the spec: the cost context (\<^verbatim>\<open>Data::CallerCalleeResults\<close>). Per symbol
  it maps an instruction address to the self cost vector recorded for it; a symbol
  without an entry has no recorded address. It also holds the cost table of the whole
  session, from which a load takes the names and the totals of the cost types.
\<close>

record LocationCost =
  selfCost :: ItemCost

record CallerCalleeEntry =
  offsetMap :: "nat \<rightharpoonup> LocationCost"

record CallerCalleeResults =
  entries :: "Symbol \<rightharpoonup> CallerCalleeEntry"
  selfCosts :: Costs

definition CallerCalleeResults_entry :: "CallerCalleeResults \<Rightarrow> Symbol \<Rightarrow> CallerCalleeEntry" where
  "CallerCalleeResults_entry r sy =
     (case entries r sy of None \<Rightarrow> \<lparr>offsetMap = Map.empty\<rparr> | Some e \<Rightarrow> e)"

text \<open>
  \<^verbatim>\<open>QString::split(QLatin1Char('\n'))\<close> keeps empty parts: a text without a line feed is
  one part, and a text that ends in a line feed has an empty last part.
\<close>

fun splitAcc :: "char \<Rightarrow> string \<Rightarrow> string \<Rightarrow> string list" where
  "splitAcc sep cur [] = [rev cur]"
| "splitAcc sep cur (x # xs) =
     (if x = sep then rev cur # splitAcc sep [] xs else splitAcc sep (x # cur) xs)"

definition qsplit :: "char \<Rightarrow> string \<Rightarrow> string list" where
  "qsplit sep text = splitAcc sep [] text"

definition separator :: char where
  "separator = CHR ''/''"

definition LF :: char where
  "LF = CHR 0x0A"

subsection \<open>The model\<close>

record SourceCodeModel =
  m_sourceCode :: "string list"
  m_validLineNumbers :: "int set"
  m_costs :: Costs
  m_callerCalleeResults :: CallerCalleeResults
  m_sysroot :: string
  m_numTypes :: int
  m_lineOffset :: int
  m_highlightLine :: int

text \<open>
  Modelled from the spec: the columns declared in the header of the class. Column 0 is
  the source text, column 1 the line number, and the cost columns start at 2.
\<close>

definition SourceCodeColumn :: int where
  "SourceCodeColumn = 0"

definition SourceCodeLineNumber :: int where
  "SourceCodeLineNumber = 1"

definition COLUMN_COUNT :: int where
  "COLUMN_COUNT = 2"

text \<open>
  \<^verbatim>\<open>Q_ASSERT\<close> stops a debug build and expands to nothing in a release build, so the build
  is a parameter of the load. A failed assertion and an index outside of a list end the
  run; both are error values.
\<close>

datatype Build = Debug | Release

datatype error = AssertionFailed | IndexOutOfRange

definition clear :: "SourceCodeModel \<Rightarrow> SourceCodeModel" where
  "clear s = s\<lparr>m_sourceCode := []\<rparr>"

text \<open>
  The loop over the disassembly lines, with the two local variables and the two members
  it updates as its state: \<^verbatim>\<open>(maxLineNumber, minLineNumber, m_costs, m_validLineNumbers)\<close>.
  The local \<^verbatim>\<open>totalCost\<close> of the loop body is computed and never used; it is left out.
\<close>

fun scanLines :: "CallerCalleeEntry \<Rightarrow> DisassemblyLine list
    \<Rightarrow> int \<times> int \<times> Costs \<times> int set \<Rightarrow> int \<times> int \<times> Costs \<times> int set" where
  "scanLines entry [] acc = acc"
| "scanLines entry (line # rest) (maxLineNumber, minLineNumber, cs, valid) =
     (if sourceCodeLine line = 0 then
        scanLines entry rest (maxLineNumber, minLineNumber, cs, valid)
      else
        scanLines entry rest
          (if sourceCodeLine line > maxLineNumber then sourceCodeLine line else maxLineNumber,
           if sourceCodeLine line < minLineNumber then sourceCodeLine line else minLineNumber,
           case offsetMap entry (addr line) of
             Some locationCost \<Rightarrow> Costs_add (sourceCodeLine line) (selfCost locationCost) cs
           | None \<Rightarrow> cs,
           insert (sourceCodeLine line) valid))"

text \<open>
  The loop \<^verbatim>\<open>for (int i = minLineNumber - 1; i < maxLineNumber; i++)\<close> with its body
  \<^verbatim>\<open>m_sourceCode.push_back(lines[i])\<close>. The source does not compare \<open>i\<close> with the
  length of \<^verbatim>\<open>lines\<close>. An index outside of the list stops a debug build inside the index
  operator and is undefined in a release build; the model ends in
  \<^const>\<open>IndexOutOfRange\<close> in both. The counter stays below \<^verbatim>\<open>maxLineNumber\<close>, so the
  increment does not overflow.
\<close>

function pushLines :: "int \<Rightarrow> int \<Rightarrow> string list \<Rightarrow> string list \<Rightarrow> error + string list" where
  "pushLines i maxLineNumber ls sourceCode =
     (if i < maxLineNumber then
        (if 0 \<le> i \<and> i < int (length ls)
         then pushLines (i + 1) maxLineNumber ls (sourceCode @ [ls ! nat i])
         else Inl IndexOutOfRange)
      else Inr sourceCode)"
  by pat_completeness auto
termination
  by (relation "measure (\<lambda>(i, maxLineNumber, ls, sourceCode). nat (maxLineNumber - i))") auto

declare pushLines.simps [simp del]

text \<open>
  The body of the load, from \<^verbatim>\<open>beginResetModel()\<close> on, for a file that was opened with
  the text \<open>content\<close>. The row list \<^verbatim>\<open>m_sourceCode\<close> is not emptied here: the label and
  the lines are pushed behind the rows that the model has. The notifications
  (\<^verbatim>\<open>beginResetModel\<close>, \<^verbatim>\<open>endResetModel\<close>, \<^verbatim>\<open>dataChanged\<close>) change no member and are not
  modelled.
\<close>

definition loadFile :: "Build \<Rightarrow> string \<Rightarrow> DisassemblyOutput \<Rightarrow> SourceCodeModel
    \<Rightarrow> error + SourceCodeModel" where
  "loadFile build content d s =
     (case scanLines (CallerCalleeResults_entry (m_callerCalleeResults s) (symbol d))
             (disassemblyLines d)
             (0, INT_MAX,
              initializeCostsFrom (selfCosts (m_callerCalleeResults s)) emptyCosts, {}) of
        (maxLineNumber, minLineNumber, cs, valid) \<Rightarrow>
          if build = Debug \<and> \<not> minLineNumber > 0 then Inl AssertionFailed
          else if build = Debug \<and> \<not> minLineNumber < maxLineNumber then Inl AssertionFailed
          else
            (case pushLines (sub32 minLineNumber 1) maxLineNumber (qsplit LF content)
                    (m_sourceCode s @ [prettySymbol (symbol d)]) of
               Inl e \<Rightarrow> Inl e
             | Inr sourceCode \<Rightarrow>
                 Inr (s\<lparr>m_validLineNumbers := valid,
                        m_costs := cs,
                        m_lineOffset := sub32 minLineNumber 1,
                        m_sourceCode := sourceCode\<rparr>)))"

text \<open>
  The file system is the function \<open>fs\<close>: the decoded text of the file at a path that
  can be opened for reading, \<^const>\<open>None\<close> at any other path. The path is the source
  root, the separator of directories and the file name.
\<close>

definition setDisassembly :: "Build \<Rightarrow> (string \<Rightarrow> string option) \<Rightarrow> DisassemblyOutput
    \<Rightarrow> SourceCodeModel \<Rightarrow> error + SourceCodeModel" where
  "setDisassembly build fs d s =
     (if sourceFileName d = [] then Inr s
      else
        (case fs (m_sysroot s @ [separator] @ sourceFileName d) of
           None \<Rightarrow> Inr s
         | Some content \<Rightarrow> loadFile build content d s))"

subsection \<open>Queries\<close>

text \<open>
  The argument \<open>parentValid\<close> of the two counts says whether the parent index is valid.
  The parent of every index of a table model is the invalid index. The test
  \<^verbatim>\<open>hasIndex\<close> is the one of the toolkit: row and column are not negative and below the
  two counts.
\<close>

definition columnCount :: "bool \<Rightarrow> SourceCodeModel \<Rightarrow> int" where
  "columnCount parentValid s = (if parentValid then 0 else add32 COLUMN_COUNT (m_numTypes s))"

definition rowCount :: "bool \<Rightarrow> SourceCodeModel \<Rightarrow> int" where
  "rowCount parentValid s = (if parentValid then 0 else int (length (m_sourceCode s)))"

record QModelIndex =
  row :: int
  column :: int

definition hasIndex :: "SourceCodeModel \<Rightarrow> int \<Rightarrow> int \<Rightarrow> bool \<Rightarrow> bool" where
  "hasIndex s r c parentValid =
     (if r < 0 \<or> c < 0 then False
      else r < rowCount parentValid s \<and> c < columnCount parentValid s)"

datatype Role = DisplayRole | ToolTipRole | CostRole | TotalCostRole | HighlightRole
  | RainbowLineNumberRole | OtherRole

datatype QVariant = Invalid | QString string | QInt int | QLongLong int | QBool bool

text \<open>
  The cell query. The formatter of relative costs (\<^verbatim>\<open>Util::formatCostRelative\<close>) is the
  parameter \<open>fmt\<close>.
\<close>

definition data :: "(int \<Rightarrow> int \<Rightarrow> bool \<Rightarrow> string) \<Rightarrow> SourceCodeModel \<Rightarrow> QModelIndex \<Rightarrow> Role
    \<Rightarrow> QVariant" where
  "data fmt s index role =
     (if \<not> hasIndex s (row index) (column index) False then Invalid
      else if row index > int (length (m_sourceCode s)) \<or> row index < 0 then Invalid
      else if role = DisplayRole \<or> role = ToolTipRole \<or> role = CostRole \<or> role = TotalCostRole
      then
        (if column index = SourceCodeColumn then QString (m_sourceCode s ! nat (row index))
         else if column index = SourceCodeLineNumber
         then QInt (add32 (row index) (m_lineOffset s))
         else if column index - COLUMN_COUNT < m_numTypes s then
           (if role = CostRole
            then QLongLong (Costs_cost (m_costs s) (column index - COLUMN_COUNT)
                              (add32 (row index) (m_lineOffset s)))
            else if role = TotalCostRole
            then QLongLong (Costs_totalCost (m_costs s) (column index - COLUMN_COUNT))
            else QString (fmt (Costs_cost (m_costs s) (column index - COLUMN_COUNT)
                                 (add32 (row index) (m_lineOffset s)))
                              (Costs_totalCost (m_costs s) (column index - COLUMN_COUNT)) True))
         else Invalid)
      else if role = HighlightRole
      then QBool (add32 (row index) (m_lineOffset s) = m_highlightLine s)
      else if role = RainbowLineNumberRole then
        (if add32 (row index) (m_lineOffset s) \<in> m_validLineNumbers s
         then QInt (add32 (row index) (m_lineOffset s))
         else QInt (- 1))
      else Invalid)"

definition updateHighlighting :: "int \<Rightarrow> SourceCodeModel \<Rightarrow> SourceCodeModel" where
  "updateHighlighting line s = s\<lparr>m_highlightLine := line\<rparr>"

definition lineForIndex :: "SourceCodeModel \<Rightarrow> QModelIndex \<Rightarrow> int" where
  "lineForIndex s index = add32 (row index) (m_lineOffset s)"

definition setSysroot :: "string \<Rightarrow> SourceCodeModel \<Rightarrow> SourceCodeModel" where
  "setSysroot sysroot s = s\<lparr>m_sysroot := sysroot\<rparr>"

definition setCallerCalleeResults :: "CallerCalleeResults \<Rightarrow> SourceCodeModel \<Rightarrow> SourceCodeModel" where
  "setCallerCalleeResults results s =
     s\<lparr>m_callerCalleeResults := results, m_numTypes := numTypes (selfCosts results)\<rparr>"

subsection \<open>Words of the specification\<close>

text \<open>
  The source lines that the disassembly refers to: the line of every entry, in the
  order of the entries, without the entries that have no source line (line 0).
\<close>

definition qualifyingLines :: "DisassemblyOutput \<Rightarrow> int list" where
  "qualifyingLines d = filter (\<lambda>l. l \<noteq> 0) (map sourceCodeLine (disassemblyLines d))"

text \<open>
  The line number of an entry is 0 or a line of a file, and fits an \<^verbatim>\<open>int\<close>.
\<close>

definition lineNumbersInRange :: "DisassemblyOutput \<Rightarrow> bool" where
  "lineNumbersInRange d =
     list_all (\<lambda>l. 0 \<le> l \<and> l \<le> INT_MAX) (map sourceCodeLine (disassemblyLines d))"

text \<open>
  Every line number is a C++ \<^verbatim>\<open>int\<close> other than \<^verbatim>\<open>INT_MIN\<close>, for which
  \<^verbatim>\<open>minLineNumber - 1\<close> overflows.
\<close>

definition lineNumbersFitInt :: "DisassemblyOutput \<Rightarrow> bool" where
  "lineNumbersFitInt d =
     list_all (\<lambda>l. INT_MIN < l \<and> l \<le> INT_MAX) (map sourceCodeLine (disassemblyLines d))"

text \<open>
  The self cost of type \<open>t\<close> that the cost entry records for the address of a
  disassembly line; nothing recorded is cost zero.
\<close>

definition recordedSelfCost :: "CallerCalleeEntry \<Rightarrow> nat \<Rightarrow> DisassemblyLine \<Rightarrow> int" where
  "recordedSelfCost entry t line =
     (case offsetMap entry (addr line) of
        None \<Rightarrow> 0
      | Some locationCost \<Rightarrow> itemAt (selfCost locationCost) t)"

text \<open>
  The cost table that the loop over the disassembly lines leaves when the load starts
  from the model \<open>s\<close>.
\<close>

definition scannedCosts :: "SourceCodeModel \<Rightarrow> DisassemblyOutput \<Rightarrow> Costs" where
  "scannedCosts s d =
     fst (snd (snd (scanLines
       (CallerCalleeResults_entry (m_callerCalleeResults s) (symbol d))
       (disassemblyLines d)
       (0, INT_MAX, initializeCostsFrom (selfCosts (m_callerCalleeResults s)) emptyCosts, {}))))"

subsection \<open>A worked example\<close>

text \<open>
  Modelled from the spec: a model as the constructor leaves it, with no rows and no
  cost types. The scenario is the one of the specification: four instructions, two of
  them on line 5 with costs 2 and 3, one on line 7 without a recorded cost, and one
  without a source line whose address has cost 99.
\<close>

definition initialModel :: SourceCodeModel where
  "initialModel =
     \<lparr>m_sourceCode = [], m_validLineNumbers = {}, m_costs = emptyCosts,
      m_callerCalleeResults = \<lparr>entries = Map.empty, selfCosts = emptyCosts\<rparr>,
      m_sysroot = [], m_numTypes = 0, m_lineOffset = 0, m_highlightLine = 0\<rparr>"

definition ex_symbol :: Symbol where
  "ex_symbol = \<lparr>symbol_name = ''_Z1fv'', prettySymbol = ''f()''\<rparr>"

definition ex_results :: CallerCalleeResults where
  "ex_results =
     \<lparr>entries = [ex_symbol \<mapsto>
        \<lparr>offsetMap = [16 \<mapsto> \<lparr>selfCost = [2]\<rparr>, 20 \<mapsto> \<lparr>selfCost = [3]\<rparr>,
                      28 \<mapsto> \<lparr>selfCost = [99]\<rparr>]\<rparr>],
      selfCosts = \<lparr>typeNames = [''cycles''], costs = [\<lambda>_. 0], totalCosts = [104]\<rparr>\<rparr>"

definition ex_output :: DisassemblyOutput where
  "ex_output =
     \<lparr>symbol = ex_symbol, sourceFileName = ''f.c'',
      disassemblyLines =
        [\<lparr>addr = 16, disassembly = ''push'', sourceCodeLine = 5\<rparr>,
         \<lparr>addr = 20, disassembly = ''mov'', sourceCodeLine = 5\<rparr>,
         \<lparr>addr = 24, disassembly = ''pop'', sourceCodeLine = 7\<rparr>,
         \<lparr>addr = 28, disassembly = ''ret'', sourceCodeLine = 0\<rparr>]\<rparr>"

definition ex_content :: string where
  "ex_content = ''l1'' @ [LF] @ ''l2'' @ [LF] @ ''l3'' @ [LF] @ ''l4'' @ [LF] @ ''l5'' @ [LF]
     @ ''l6'' @ [LF] @ ''l7'' @ [LF] @ ''l8'' @ [LF]"

definition ex_fs :: "string \<Rightarrow> string option" where
  "ex_fs path = (if path = ''/src/f.c'' then Some ex_content else None)"

definition ex_model :: SourceCodeModel where
  "ex_model = setCallerCalleeResults ex_results (setSysroot ''/src'' initialModel)"

definition ex_loaded :: SourceCodeModel where
  "ex_loaded =
     ex_model\<lparr>m_validLineNumbers := {5, 7},
       m_costs := \<lparr>typeNames = [''cycles''], costs = [(\<lambda>_. 0)(5 := 5)], totalCosts = [104]\<rparr>,
       m_lineOffset := 4,
       m_sourceCode := [''f()'', ''l5'', ''l6'', ''l7'']\<rparr>"

text \<open>The example model after a second load of the same disassembly.\<close>

definition ex_reloaded :: SourceCodeModel where
  "ex_reloaded =
     ex_loaded\<lparr>m_sourceCode :=
       [''f()'', ''l5'', ''l6'', ''l7'', ''f()'', ''l5'', ''l6'', ''l7'']\<rparr>"

text \<open>
  Two more inputs: a disassembly whose only entry has no source line, and one whose
  entries are all on line 5.
\<close>

definition ex_unresolved :: DisassemblyOutput where
  "ex_unresolved =
     ex_output\<lparr>disassemblyLines :=
       [\<lparr>addr = 28, disassembly = ''ret'', sourceCodeLine = 0\<rparr>]\<rparr>"

definition ex_one_line :: DisassemblyOutput where
  "ex_one_line =
     ex_output\<lparr>disassemblyLines :=
       [\<lparr>addr = 16, disassembly = ''push'', sourceCodeLine = 5\<rparr>,
        \<lparr>addr = 20, disassembly = ''mov'', sourceCodeLine = 5\<rparr>]\<rparr>"

text \<open>A file system whose file has two lines only.\<close>

definition ex_short_fs :: "string \<Rightarrow> string option" where
  "ex_short_fs path = (if path = ''/src/f.c'' then Some (''l1'' @ [LF] @ ''l2'') else None)"

text \<open>A formatter of relative costs for the example; the queries only pass it on.\<close>

definition ex_fmt :: "int \<Rightarrow> int \<Rightarrow> bool \<Rightarrow> string" where
  "ex_fmt cost totalCost showPercentage = (if showPercentage then ''%'' else [])"

section \<open>Properties\<close>

subsection \<open>Machine integers\<close>

lemma int32_id: "in_int32 x \<Longrightarrow> int32 x = x"
  by (simp add: in_int32_def int32_def INT_MIN_def INT_MAX_def)

lemma sub32_one:
  assumes "1 \<le> x" and "x \<le> INT_MAX"
  shows "sub32 x 1 = x - 1"
  using assms by (simp add: sub32_def int32_def INT_MAX_def)

lemma add32_exact: "in_int32 (a + b) \<Longrightarrow> add32 a b = a + b"
  by (simp add: add32_def int32_id)

subsection \<open>The loop over the disassembly lines\<close>

lemma scanLines_filter:
  "scanLines entry (filter (\<lambda>e. sourceCodeLine e \<noteq> 0) ls) acc = scanLines entry ls acc"
  by (induction entry ls acc rule: scanLines.induct) auto

lemma scanLines_max:
  "fst (scanLines entry ls (mx, mn, cs, valid))
     = fold max (filter (\<lambda>l. l \<noteq> 0) (map sourceCodeLine ls)) mx"
  by (induction entry ls "(mx, mn, cs, valid)" arbitrary: mx mn cs valid rule: scanLines.induct)
     (auto simp: max_def)

lemma scanLines_min:
  "fst (snd (scanLines entry ls (mx, mn, cs, valid)))
     = fold min (filter (\<lambda>l. l \<noteq> 0) (map sourceCodeLine ls)) mn"
  by (induction entry ls "(mx, mn, cs, valid)" arbitrary: mx mn cs valid rule: scanLines.induct)
     (auto simp: min_def)

lemma scanLines_valid:
  "snd (snd (snd (scanLines entry ls (mx, mn, cs, valid))))
     = valid \<union> set (filter (\<lambda>l. l \<noteq> 0) (map sourceCodeLine ls))"
  by (induction entry ls "(mx, mn, cs, valid)" arbitrary: mx mn cs valid rule: scanLines.induct)
     auto

lemma fold_max_Max: "fold max xs (m::int) = Max (insert m (set xs))"
proof (induction xs arbitrary: m)
  case Nil
  show ?case by simp
next
  case (Cons a xs)
  show ?case
  proof (cases "xs = []")
    case True
    then show ?thesis by (simp add: max.commute)
  next
    case False
    then have ne: "set xs \<noteq> {}" by simp
    have "fold max (a # xs) m = Max (insert (max a m) (set xs))"
      using Cons by simp
    also have "\<dots> = max (max a m) (Max (set xs))"
      using ne by simp
    also have "\<dots> = Max (insert m (set (a # xs)))"
      using ne by (simp add: max.assoc max.left_commute)
    finally show ?thesis .
  qed
qed

lemma fold_min_Min: "fold min xs (m::int) = Min (insert m (set xs))"
proof (induction xs arbitrary: m)
  case Nil
  show ?case by simp
next
  case (Cons a xs)
  show ?case
  proof (cases "xs = []")
    case True
    then show ?thesis by (simp add: min.commute)
  next
    case False
    then have ne: "set xs \<noteq> {}" by simp
    have "fold min (a # xs) m = Min (insert (min a m) (set xs))"
      using Cons by simp
    also have "\<dots> = min (min a m) (Min (set xs))"
      using ne by simp
    also have "\<dots> = Min (insert m (set (a # xs)))"
      using ne by (simp add: min.assoc min.left_commute)
    finally show ?thesis .
  qed
qed

lemma Costs_add_length: "length (costs (Costs_add i ic c)) = length (costs c)"
  by (simp add: Costs_add_def)

lemma Costs_cost_add:
  "t < length (costs c) \<Longrightarrow>
   Costs_cost (Costs_add i ic c) (int t) l
     = Costs_cost c (int t) l + (if l = i then itemAt ic t else 0)"
  by (simp add: Costs_add_def Costs_cost_def)

lemma scanLines_costs_length:
  "length (costs (fst (snd (snd (scanLines entry ls (mx, mn, cs, valid)))))) = length (costs cs)"
  by (induction entry ls "(mx, mn, cs, valid)" arbitrary: mx mn cs valid rule: scanLines.induct)
     (auto simp: Costs_add_length split: option.splits)

lemma scanLines_cost:
  "t < length (costs cs) \<Longrightarrow>
   Costs_cost (fst (snd (snd (scanLines entry ls (mx, mn, cs, valid))))) (int t) l
     = Costs_cost cs (int t) l
       + (if l = 0 then 0
          else sum_list (map (recordedSelfCost entry t)
                 (filter (\<lambda>e. sourceCodeLine e = l) ls)))"
proof (induction entry ls "(mx, mn, cs, valid)" arbitrary: mx mn cs valid
    rule: scanLines.induct)
  case (1 entry)
  show ?case by simp
next
  case (2 entry line rest mx mn cs valid)
  show ?case
  proof (cases "sourceCodeLine line = 0")
    case True
    then show ?thesis using 2 by auto
  next
    case False
    show ?thesis
    proof (cases "offsetMap entry (addr line)")
      case None
      then show ?thesis
        using False 2(2) [OF False] 2(3)
        by (simp add: recordedSelfCost_def)
    next
      case (Some lc)
      have len: "t < length (costs (Costs_add (sourceCodeLine line) (selfCost lc) cs))"
        using 2(3) by (simp add: Costs_add_length)
      show ?thesis
        using False Some 2(2) [OF False] len 2(3)
        by (simp add: recordedSelfCost_def Costs_cost_add)
    qed
  qed
qed

subsection \<open>The loop over the lines of the file\<close>

lemma pushLines_eq:
  "pushLines i mx ls acc =
     (if i < mx then
        (if 0 \<le> i \<and> mx \<le> int (length ls)
         then Inr (acc @ take (nat (mx - i)) (drop (nat i) ls))
         else Inl IndexOutOfRange)
      else Inr acc)"
proof (induction i mx ls acc rule: pushLines.induct)
  case (1 i mx ls acc)
  show ?case
  proof (cases "i < mx")
    case False
    then show ?thesis by (subst pushLines.simps) simp
  next
    case lt: True
    show ?thesis
    proof (cases "0 \<le> i \<and> i < int (length ls)")
      case False
      then have "pushLines i mx ls acc = Inl IndexOutOfRange"
        using lt by (subst pushLines.simps) auto
      moreover have "\<not> (0 \<le> i \<and> mx \<le> int (length ls))"
        using False lt by linarith
      ultimately show ?thesis using lt by simp
    next
      case True
      have step: "pushLines i mx ls acc = pushLines (i + 1) mx ls (acc @ [ls ! nat i])"
        using lt True by (subst pushLines.simps) simp
      have ih: "pushLines (i + 1) mx ls (acc @ [ls ! nat i]) =
         (if i + 1 < mx then
            (if 0 \<le> i + 1 \<and> mx \<le> int (length ls)
             then Inr ((acc @ [ls ! nat i]) @ take (nat (mx - (i + 1))) (drop (nat (i + 1)) ls))
             else Inl IndexOutOfRange)
          else Inr (acc @ [ls ! nat i]))"
        using 1 [OF lt True] .
      have n: "nat (i + 1) = Suc (nat i)"
        using True by linarith
      have "nat i < length ls"
        using True by linarith
      then have d: "drop (nat i) ls = ls ! nat i # drop (nat (i + 1)) ls"
        unfolding n by (rule Cons_nth_drop_Suc [symmetric])
      have t: "nat (mx - i) = Suc (nat (mx - (i + 1)))"
        using lt by linarith
      show ?thesis
      proof (cases "i + 1 < mx")
        case True
        then show ?thesis
          using lt \<open>0 \<le> i \<and> i < int (length ls)\<close> by (simp add: step ih d t)
      next
        case False
        then have z: "nat (mx - (i + 1)) = 0" by linarith
        have "i < int (length ls)"
          using \<open>0 \<le> i \<and> i < int (length ls)\<close> by simp
        then have "mx \<le> int (length ls)"
          using False by linarith
        then show ?thesis
          using lt False \<open>0 \<le> i \<and> i < int (length ls)\<close> by (simp add: step ih d t z)
      qed
    qed
  qed
qed

subsection \<open>The load\<close>

lemma scan_eq:
  "scanLines (CallerCalleeResults_entry (m_callerCalleeResults s) (symbol d))
     (disassemblyLines d)
     (0, INT_MAX, initializeCostsFrom (selfCosts (m_callerCalleeResults s)) emptyCosts, {})
   = (fold max (qualifyingLines d) 0, fold min (qualifyingLines d) INT_MAX,
      scannedCosts s d, set (qualifyingLines d))"
  using scanLines_max [of "CallerCalleeResults_entry (m_callerCalleeResults s) (symbol d)"
      "disassemblyLines d" 0 INT_MAX
      "initializeCostsFrom (selfCosts (m_callerCalleeResults s)) emptyCosts" "{}"]
    scanLines_min [of "CallerCalleeResults_entry (m_callerCalleeResults s) (symbol d)"
      "disassemblyLines d" 0 INT_MAX
      "initializeCostsFrom (selfCosts (m_callerCalleeResults s)) emptyCosts" "{}"]
    scanLines_valid [of "CallerCalleeResults_entry (m_callerCalleeResults s) (symbol d)"
      "disassemblyLines d" 0 INT_MAX
      "initializeCostsFrom (selfCosts (m_callerCalleeResults s)) emptyCosts" "{}"]
  unfolding scannedCosts_def qualifyingLines_def
  by (cases "scanLines (CallerCalleeResults_entry (m_callerCalleeResults s) (symbol d))
     (disassemblyLines d)
     (0, INT_MAX, initializeCostsFrom (selfCosts (m_callerCalleeResults s)) emptyCosts, {})")
    simp

lemma setDisassembly_open:
  "sourceFileName d \<noteq> [] \<Longrightarrow> fs (m_sysroot s @ [separator] @ sourceFileName d) = Some content
   \<Longrightarrow> setDisassembly build fs d s = loadFile build content d s"
  by (simp add: setDisassembly_def)

lemma loadFile_unfold:
  "loadFile build content d s =
     (if build = Debug \<and> \<not> 0 < fold min (qualifyingLines d) INT_MAX then Inl AssertionFailed
      else if build = Debug
          \<and> \<not> fold min (qualifyingLines d) INT_MAX < fold max (qualifyingLines d) 0
      then Inl AssertionFailed
      else
        (case pushLines (sub32 (fold min (qualifyingLines d) INT_MAX) 1)
                (fold max (qualifyingLines d) 0) (qsplit LF content)
                (m_sourceCode s @ [prettySymbol (symbol d)]) of
           Inl e \<Rightarrow> Inl e
         | Inr sourceCode \<Rightarrow>
             Inr (s\<lparr>m_validLineNumbers := set (qualifyingLines d),
                    m_costs := scannedCosts s d,
                    m_lineOffset := sub32 (fold min (qualifyingLines d) INT_MAX) 1,
                    m_sourceCode := sourceCode\<rparr>)))"
  unfolding loadFile_def scan_eq by (simp only: prod.case)

lemma qualifyingLines_filter:
  "qualifyingLines (d\<lparr>disassemblyLines :=
       filter (\<lambda>e. sourceCodeLine e \<noteq> 0) (disassemblyLines d)\<rparr>) = qualifyingLines d"
  by (simp add: qualifyingLines_def filter_map comp_def)

lemma scannedCosts_filter:
  "scannedCosts s (d\<lparr>disassemblyLines :=
       filter (\<lambda>e. sourceCodeLine e \<noteq> 0) (disassemblyLines d)\<rparr>) = scannedCosts s d"
  by (simp add: scannedCosts_def scanLines_filter)

lemma loadFile_filter:
  "loadFile build content (d\<lparr>disassemblyLines :=
       filter (\<lambda>e. sourceCodeLine e \<noteq> 0) (disassemblyLines d)\<rparr>) s
     = loadFile build content d s"
  unfolding loadFile_unfold qualifyingLines_filter scannedCosts_filter by simp

lemma loadFile_Inr:
  assumes "loadFile build content d s = Inr s'"
  shows "\<exists>sourceCode.
      pushLines (sub32 (fold min (qualifyingLines d) INT_MAX) 1)
        (fold max (qualifyingLines d) 0) (qsplit LF content)
        (m_sourceCode s @ [prettySymbol (symbol d)]) = Inr sourceCode
      \<and> s' = s\<lparr>m_validLineNumbers := set (qualifyingLines d),
                m_costs := scannedCosts s d,
                m_lineOffset := sub32 (fold min (qualifyingLines d) INT_MAX) 1,
                m_sourceCode := sourceCode\<rparr>"
  using assms unfolding loadFile_unfold
  by (auto split: if_splits sum.splits)

lemma loadFile_costs:
  assumes "loadFile build content d s = Inr s'"
  shows "m_costs s' = scannedCosts s d"
  using loadFile_Inr [OF assms] by auto

lemma loadFile_valid:
  assumes "loadFile build content d s = Inr s'"
  shows "m_validLineNumbers s' = set (qualifyingLines d)"
  using loadFile_Inr [OF assms] by auto

lemma scannedCosts_no_qualifying:
  assumes "qualifyingLines d = []"
  shows "scannedCosts s d = initializeCostsFrom (selfCosts (m_callerCalleeResults s)) emptyCosts"
proof -
  have "filter (\<lambda>e. sourceCodeLine e \<noteq> 0) (disassemblyLines d) = []"
    using assms by (simp add: qualifyingLines_def filter_map comp_def)
  then have "scanLines (CallerCalleeResults_entry (m_callerCalleeResults s) (symbol d))
       (disassemblyLines d)
       (0, INT_MAX, initializeCostsFrom (selfCosts (m_callerCalleeResults s)) emptyCosts, {})
     = (0, INT_MAX, initializeCostsFrom (selfCosts (m_callerCalleeResults s)) emptyCosts, {})"
    by (subst scanLines_filter [symmetric]) simp
  then show ?thesis
    by (simp add: scannedCosts_def)
qed

subsection \<open>The tracked minimum and maximum\<close>

lemma qualifying_range:
  assumes "lineNumbersInRange d" and "l \<in> set (qualifyingLines d)"
  shows "0 < l \<and> l \<le> INT_MAX"
  using assms by (auto simp: lineNumbersInRange_def qualifyingLines_def list_all_iff)

lemma tracked_min:
  assumes "lineNumbersInRange d" and "qualifyingLines d \<noteq> []"
  shows "fold min (qualifyingLines d) INT_MAX = Min (set (qualifyingLines d))"
proof -
  have ne: "set (qualifyingLines d) \<noteq> {}"
    using assms(2) by simp
  have "Min (set (qualifyingLines d)) \<in> set (qualifyingLines d)"
    using ne by (intro Min_in) simp_all
  then have le: "Min (set (qualifyingLines d)) \<le> INT_MAX"
    using qualifying_range [OF assms(1)] by blast
  have "fold min (qualifyingLines d) INT_MAX = min INT_MAX (Min (set (qualifyingLines d)))"
    using ne by (simp add: fold_min_Min)
  then show ?thesis using le by simp
qed

lemma tracked_max:
  assumes "lineNumbersInRange d" and "qualifyingLines d \<noteq> []"
  shows "fold max (qualifyingLines d) 0 = Max (set (qualifyingLines d))"
proof -
  have ne: "set (qualifyingLines d) \<noteq> {}"
    using assms(2) by simp
  have "Max (set (qualifyingLines d)) \<in> set (qualifyingLines d)"
    using ne by (intro Max_in) simp_all
  then have ge: "0 \<le> Max (set (qualifyingLines d))"
    using qualifying_range [OF assms(1)] by fastforce
  have "fold max (qualifyingLines d) 0 = max 0 (Max (set (qualifyingLines d)))"
    using ne by (simp add: fold_max_Max)
  then show ?thesis using ge by simp
qed

lemma min_max_bounds:
  assumes "lineNumbersInRange d" and "qualifyingLines d \<noteq> []"
  shows "1 \<le> Min (set (qualifyingLines d))"
    and "Min (set (qualifyingLines d)) \<le> Max (set (qualifyingLines d))"
    and "Max (set (qualifyingLines d)) \<le> INT_MAX"
proof -
  have ne: "set (qualifyingLines d) \<noteq> {}"
    using assms(2) by simp
  have "Min (set (qualifyingLines d)) \<in> set (qualifyingLines d)"
    using ne by (intro Min_in) simp_all
  then show "1 \<le> Min (set (qualifyingLines d))"
    using qualifying_range [OF assms(1)] by fastforce
  have mx: "Max (set (qualifyingLines d)) \<in> set (qualifyingLines d)"
    using ne by (intro Max_in) simp_all
  then show "Max (set (qualifyingLines d)) \<le> INT_MAX"
    using qualifying_range [OF assms(1)] by blast
  show "Min (set (qualifyingLines d)) \<le> Max (set (qualifyingLines d))"
    using ne by (simp add: Min_le_iff)  
qed

lemma loadFile_qualifying:
  assumes "lineNumbersInRange d" and "qualifyingLines d \<noteq> []"
  shows "loadFile build content d s =
     (if build = Debug \<and> \<not> Min (set (qualifyingLines d)) < Max (set (qualifyingLines d))
      then Inl AssertionFailed
      else if Max (set (qualifyingLines d)) \<le> int (length (qsplit LF content))
      then Inr (s\<lparr>m_validLineNumbers := set (qualifyingLines d),
                  m_costs := scannedCosts s d,
                  m_lineOffset := Min (set (qualifyingLines d)) - 1,
                  m_sourceCode := m_sourceCode s @ [prettySymbol (symbol d)]
                     @ take (nat (Max (set (qualifyingLines d)) - Min (set (qualifyingLines d)) + 1))
                         (drop (nat (Min (set (qualifyingLines d)) - 1)) (qsplit LF content))\<rparr>)
      else Inl IndexOutOfRange)"
proof -
  note b = min_max_bounds [OF assms]
  have off: "sub32 (Min (set (qualifyingLines d))) 1 = Min (set (qualifyingLines d)) - 1"
    using b by (intro sub32_one) simp_all
  show ?thesis
    unfolding loadFile_unfold tracked_min [OF assms] tracked_max [OF assms] off pushLines_eq
    using b by (simp add: algebra_simps)
qed

lemma loadFile_no_qualifying:
  assumes "qualifyingLines d = []"
  shows "loadFile build content d s =
     (if build = Debug then Inl AssertionFailed
      else Inr (s\<lparr>m_validLineNumbers := {},
                  m_costs := scannedCosts s d,
                  m_lineOffset := INT_MAX - 1,
                  m_sourceCode := m_sourceCode s @ [prettySymbol (symbol d)]\<rparr>))"
  unfolding loadFile_unfold assms pushLines_eq
  by (simp add: INT_MAX_def sub32_def int32_def)

lemma loadFile_offset:
  assumes "loadFile build content d s = Inr s'" and "lineNumbersInRange d"
    and "qualifyingLines d \<noteq> []"
  shows "m_lineOffset s' = Min (set (qualifyingLines d)) - 1"
  using assms(1) unfolding loadFile_qualifying [OF assms(2,3)]
  by (auto split: if_splits)

lemma loadFile_rows:
  assumes "loadFile build content d s = Inr s'" and "lineNumbersInRange d"
    and "qualifyingLines d \<noteq> []"
  shows "m_sourceCode s' = m_sourceCode s @ [prettySymbol (symbol d)]
           @ take (nat (Max (set (qualifyingLines d)) - Min (set (qualifyingLines d)) + 1))
               (drop (nat (Min (set (qualifyingLines d)) - 1)) (qsplit LF content))"
    and "Max (set (qualifyingLines d)) \<le> int (length (qsplit LF content))"
  using assms(1) unfolding loadFile_qualifying [OF assms(2,3)]
  by (auto split: if_splits)

lemma sub32_exact:
  assumes "INT_MIN < x" and "x \<le> INT_MAX"
  shows "sub32 x 1 = x - 1"
  using assms by (simp add: sub32_def int32_def INT_MAX_def INT_MIN_def)

lemma loadFile_Inr_in_range:
  assumes ld: "loadFile build content d s = Inr s'"
    and fit: "lineNumbersFitInt d"
    and ne: "qualifyingLines d \<noteq> []"
  shows "lineNumbersInRange d"
proof -
  let ?q = "qualifyingLines d"
  have fin: "finite (set ?q)" and nes: "set ?q \<noteq> {}"
    using ne by simp_all
  have rng: "INT_MIN < l \<and> l \<le> INT_MAX" if "l \<in> set ?q" for l
    using that fit by (auto simp: lineNumbersFitInt_def qualifyingLines_def list_all_iff)
  have mn_in: "Min (set ?q) \<in> set ?q"
    using fin nes by (rule Min_in)
  have mx_in: "Max (set ?q) \<in> set ?q"
    using fin nes by (rule Max_in)
  have mn: "fold min ?q INT_MAX = Min (set ?q)"
  proof -
    have "fold min ?q INT_MAX = min INT_MAX (Min (set ?q))"
      using nes by (simp add: fold_min_Min)
    then show ?thesis
      using rng [OF mn_in] by simp
  qed
  have mx: "Min (set ?q) \<le> fold max ?q 0"
  proof -
    have "fold max ?q 0 = max 0 (Max (set ?q))"
      using nes by (simp add: fold_max_Max)
    moreover have "Min (set ?q) \<le> Max (set ?q)"
      using fin nes by simp
    ultimately show ?thesis by simp
  qed
  have off: "sub32 (Min (set ?q)) 1 = Min (set ?q) - 1"
    using rng [OF mn_in] by (intro sub32_exact) simp_all
  obtain sourceCode where
    "pushLines (sub32 (fold min ?q INT_MAX) 1) (fold max ?q 0) (qsplit LF content)
        (m_sourceCode s @ [prettySymbol (symbol d)]) = Inr sourceCode"
    using loadFile_Inr [OF ld] by blast
  then have "0 \<le> Min (set ?q) - 1"
    unfolding mn off pushLines_eq using mx by (simp split: if_splits)
  then have pos: "0 < l" if "l \<in> set ?q" for l
    using Min_le [OF fin that] by linarith
  have "0 \<le> l \<and> l \<le> INT_MAX" if "l \<in> set (map sourceCodeLine (disassemblyLines d))" for l
  proof (cases "l = 0")
    case True
    then show ?thesis by (simp add: INT_MAX_def)
  next
    case False
    then have "l \<in> set ?q"
      using that by (simp add: qualifyingLines_def)
    then show ?thesis
      using pos rng by fastforce
  qed
  then show ?thesis
    unfolding lineNumbersInRange_def list_all_iff by blast
qed

subsection \<open>The queries\<close>

lemma hasIndex_highlight:
  "hasIndex (updateHighlighting l s) r c p = hasIndex s r c p"
  by (simp add: hasIndex_def updateHighlighting_def rowCount_def columnCount_def)

subsection \<open>The example\<close>

lemmas ex_defs = ex_model_def ex_loaded_def ex_fs_def ex_content_def ex_output_def ex_results_def
  ex_symbol_def initialModel_def setCallerCalleeResults_def setSysroot_def

lemmas load_defs = setDisassembly_def loadFile_def separator_def LF_def qsplit_def
  CallerCalleeResults_entry_def initializeCostsFrom_def emptyCosts_def Costs_add_def itemAt_def
  INT_MAX_def sub32_def int32_def pushLines.simps numTypes_def

lemmas query_defs = rowCount_def columnCount_def hasIndex_def lineForIndex_def add32_def int32_def
  COLUMN_COUNT_def SourceCodeColumn_def SourceCodeLineNumber_def in_int32_def INT_MIN_def
  INT_MAX_def

lemma ex_load: "setDisassembly Release ex_fs ex_output ex_model = Inr ex_loaded"
  by (simp add: load_defs ex_defs insert_commute)

lemma ex_file:
  "sourceFileName ex_output \<noteq> []"
  "ex_fs (m_sysroot ex_model @ [separator] @ sourceFileName ex_output) = Some ex_content"
  by (simp_all add: ex_defs separator_def)

lemma ex_lines:
  "lineNumbersInRange ex_output"
  "qualifyingLines ex_output = [5, 5, 7]"
  by (simp_all add: ex_output_def lineNumbersInRange_def qualifyingLines_def INT_MAX_def)

lemma ex_fit: "lineNumbersFitInt ex_output"
  by (simp add: ex_output_def lineNumbersFitInt_def INT_MAX_def INT_MIN_def)

section \<open>Claims\<close>

subsection \<open>Costs add up per source line\<close>

text \<open>
  C1. During a load that opens its file and runs to its end, costs add up per source
  line: for every cost type \<open>t\<close> of the cost context and every line \<open>l\<close>, the cost at
  \<open>(l, t)\<close> is the sum, over the disassembly entries of line \<open>l\<close> in their order, of the
  self cost recorded for the address of the entry, each entry counted once. Entries of
  line 0 are skipped: nothing is accumulated at line 0, and the load gives the same
  model when these entries are removed from its input, which covers the costs, the
  valid lines and the tracked minimum and maximum.
\<close>

theorem C1_costs_aggregate_per_line:
  assumes "sourceFileName d \<noteq> []"
    and "fs (m_sysroot s @ [separator] @ sourceFileName d) = Some content"
    and "setDisassembly build fs d s = Inr s'"
    and "t < length (typeNames (selfCosts (m_callerCalleeResults s)))"
  shows "Costs_cost (m_costs s') (int t) l =
           (if l = 0 then 0
            else sum_list (map
                   (recordedSelfCost
                      (CallerCalleeResults_entry (m_callerCalleeResults s) (symbol d)) t)
                   (filter (\<lambda>e. sourceCodeLine e = l) (disassemblyLines d))))
         \<and> setDisassembly build fs
             (d\<lparr>disassemblyLines :=
                  filter (\<lambda>e. sourceCodeLine e \<noteq> 0) (disassemblyLines d)\<rparr>) s = Inr s'"
proof
  have ld: "loadFile build content d s = Inr s'"
    using assms(1-3) by (simp add: setDisassembly_open)
  have len: "t < length (costs (initializeCostsFrom (selfCosts (m_callerCalleeResults s)) emptyCosts))"
    using assms(4) by (simp add: initializeCostsFrom_def)
  have zero: "Costs_cost (initializeCostsFrom (selfCosts (m_callerCalleeResults s)) emptyCosts)
                (int t) l = 0"
    using assms(4) by (simp add: initializeCostsFrom_def Costs_cost_def)
  show "Costs_cost (m_costs s') (int t) l =
           (if l = 0 then 0
            else sum_list (map
                   (recordedSelfCost
                      (CallerCalleeResults_entry (m_callerCalleeResults s) (symbol d)) t)
                   (filter (\<lambda>e. sourceCodeLine e = l) (disassemblyLines d))))"
    unfolding loadFile_costs [OF ld] scannedCosts_def scanLines_cost [OF len] zero by simp
  show "setDisassembly build fs
             (d\<lparr>disassemblyLines :=
                  filter (\<lambda>e. sourceCodeLine e \<noteq> 0) (disassemblyLines d)\<rparr>) s = Inr s'"
    using assms(1-3) by (simp add: setDisassembly_def loadFile_filter)
qed

theorem C1_costs_aggregate_per_line_witness:
  "sourceFileName ex_output \<noteq> []
   \<and> ex_fs (m_sysroot ex_model @ [separator] @ sourceFileName ex_output) = Some ex_content
   \<and> setDisassembly Release ex_fs ex_output ex_model = Inr ex_loaded
   \<and> Costs_cost (m_costs ex_loaded) 0 5 = 2 + 3
   \<and> Costs_cost (m_costs ex_loaded) 0 7 = 0
   \<and> setDisassembly Release ex_fs
        (ex_output\<lparr>disassemblyLines := take 3 (disassemblyLines ex_output)\<rparr>) ex_model
       = Inr ex_loaded"
proof -
  have h1: "sourceFileName ex_output \<noteq> []"
    by (simp add: ex_output_def)
  have h2: "ex_fs (m_sysroot ex_model @ [separator] @ sourceFileName ex_output) = Some ex_content"
    by (simp add: ex_defs separator_def)
  have h4: "0 < length (typeNames (selfCosts (m_callerCalleeResults ex_model)))"
    by (simp add: ex_defs)
  have e: "CallerCalleeResults_entry (m_callerCalleeResults ex_model) (symbol ex_output)
      = \<lparr>offsetMap = [16 \<mapsto> \<lparr>selfCost = [2]\<rparr>, 20 \<mapsto> \<lparr>selfCost = [3]\<rparr>,
                      28 \<mapsto> \<lparr>selfCost = [99]\<rparr>]\<rparr>"
    by (simp add: ex_defs CallerCalleeResults_entry_def)
  have c5: "Costs_cost (m_costs ex_loaded) 0 5 = 2 + 3"
    using C1_costs_aggregate_per_line [OF h1 h2 ex_load h4, of 5] unfolding e
    by (simp add: ex_output_def recordedSelfCost_def itemAt_def)
  have c7: "Costs_cost (m_costs ex_loaded) 0 7 = 0"
    using C1_costs_aggregate_per_line [OF h1 h2 ex_load h4, of 7] unfolding e
    by (simp add: ex_output_def recordedSelfCost_def itemAt_def)
  have f: "setDisassembly Release ex_fs
        (ex_output\<lparr>disassemblyLines := take 3 (disassemblyLines ex_output)\<rparr>) ex_model
       = Inr ex_loaded"
    using C1_costs_aggregate_per_line [OF h1 h2 ex_load h4, of 5]
    by (simp add: ex_output_def)
  show ?thesis
    by (intro conjI) (rule h1 h2 ex_load c5 c7 f)+
qed

subsection \<open>A load without a file changes nothing\<close>

text \<open>
  C2. A load with an empty file name, or with a file that cannot be opened, returns the
  model it was given: the rows, the columns, every cell, the valid lines, the costs and
  the offset are those of before.
\<close>

theorem C2_load_without_file_is_noop:
  assumes "sourceFileName d = [] \<or> fs (m_sysroot s @ [separator] @ sourceFileName d) = None"
  shows "setDisassembly build fs d s = Inr s"
  using assms by (auto simp: setDisassembly_def)

theorem C2_load_without_file_is_noop_witness:
  "setDisassembly Release ex_fs (ex_output\<lparr>sourceFileName := []\<rparr>) ex_loaded = Inr ex_loaded
   \<and> ex_fs (m_sysroot ex_loaded @ [separator] @ ''g.c'') = None
   \<and> setDisassembly Debug ex_fs (ex_output\<lparr>sourceFileName := ''g.c''\<rparr>) ex_loaded = Inr ex_loaded"
proof -
  have n: "ex_fs (m_sysroot ex_loaded @ [separator] @ ''g.c'') = None"
    by (simp add: ex_defs separator_def)
  show ?thesis
    using C2_load_without_file_is_noop [of "ex_output\<lparr>sourceFileName := []\<rparr>" ex_fs ex_loaded Release]
      C2_load_without_file_is_noop [of "ex_output\<lparr>sourceFileName := ''g.c''\<rparr>" ex_fs ex_loaded Debug]
      n
    by simp
qed

subsection \<open>The line offset\<close>

text \<open>
  C3. After a load that opens its file and runs to its end, with line numbers that are
  C++ \<^verbatim>\<open>int\<close>s above \<^verbatim>\<open>INT_MIN\<close> and at least one qualifying entry, the line offset is the minimum qualifying source
  line minus 1, and the line of a row is the row plus the offset, as C++ \<^verbatim>\<open>int\<close>
  addition and exactly so wherever the sum fits 32 bits. The line of row 1 is the minimum
  qualifying line, the lines of consecutive rows are consecutive, and after a load into
  an empty row list every displayed row has the line row plus offset.
\<close>

theorem C3_line_offset:
  assumes "sourceFileName d \<noteq> []"
    and "fs (m_sysroot s @ [separator] @ sourceFileName d) = Some content"
    and "setDisassembly build fs d s = Inr s'"
    and "lineNumbersFitInt d"
    and "qualifyingLines d \<noteq> []"
  shows "m_lineOffset s' = Min (set (qualifyingLines d)) - 1
    \<and> lineForIndex s' index = add32 (row index) (m_lineOffset s')
    \<and> (in_int32 (row index + m_lineOffset s')
         \<longrightarrow> lineForIndex s' index = row index + m_lineOffset s')
    \<and> lineForIndex s' \<lparr>row = 1, column = c\<rparr> = Min (set (qualifyingLines d))
    \<and> (in_int32 (r + m_lineOffset s') \<and> in_int32 (r + 1 + m_lineOffset s')
         \<longrightarrow> lineForIndex s' \<lparr>row = r + 1, column = c\<rparr>
             = lineForIndex s' \<lparr>row = r, column = c\<rparr> + 1)
    \<and> (m_sourceCode s = [] \<and> 0 \<le> r \<and> r < rowCount False s'
         \<longrightarrow> lineForIndex s' \<lparr>row = r, column = c\<rparr> = r + m_lineOffset s')"
proof -
  have ld: "loadFile build content d s = Inr s'"
    using assms(1-3) by (simp add: setDisassembly_open)
  have rg: "lineNumbersInRange d"
    by (rule loadFile_Inr_in_range [OF ld assms(4,5)])
  note b = min_max_bounds [OF rg assms(5)]
  have off: "m_lineOffset s' = Min (set (qualifyingLines d)) - 1"
    by (rule loadFile_offset [OF ld rg assms(5)])
  have one: "lineForIndex s' \<lparr>row = 1, column = c\<rparr> = Min (set (qualifyingLines d))"
    using b by (simp add: lineForIndex_def off add32_exact in_int32_def INT_MIN_def INT_MAX_def)
  have rows: "m_sourceCode s = [] \<Longrightarrow> 0 \<le> r \<Longrightarrow> r < rowCount False s'
      \<Longrightarrow> lineForIndex s' \<lparr>row = r, column = c\<rparr> = r + m_lineOffset s'"
  proof -
    assume e: "m_sourceCode s = []" and r: "0 \<le> r" "r < rowCount False s'"
    have "int (length (m_sourceCode s'))
        \<le> 1 + (Max (set (qualifyingLines d)) - Min (set (qualifyingLines d)) + 1)"
      using b unfolding loadFile_rows(1) [OF ld rg assms(5)] e by simp
    then have "r + m_lineOffset s' \<le> Max (set (qualifyingLines d))"
      using r unfolding off rowCount_def by simp
    then have "in_int32 (r + m_lineOffset s')"
      using r b unfolding off by (simp add: in_int32_def INT_MIN_def INT_MAX_def)
    then show ?thesis
      by (simp add: lineForIndex_def add32_exact)
  qed
  show ?thesis
    using off one rows by (simp add: lineForIndex_def add32_exact)
qed

theorem C3_line_offset_witness:
  "sourceFileName ex_output \<noteq> []
   \<and> setDisassembly Release ex_fs ex_output ex_model = Inr ex_loaded
   \<and> lineNumbersFitInt ex_output
   \<and> qualifyingLines ex_output \<noteq> []
   \<and> m_lineOffset ex_loaded = 5 - 1
   \<and> lineForIndex ex_loaded \<lparr>row = 1, column = 0\<rparr> = 5
   \<and> lineForIndex ex_loaded \<lparr>row = 3, column = 0\<rparr> = lineForIndex ex_loaded \<lparr>row = 2, column = 0\<rparr> + 1"
proof -
  have ne: "qualifyingLines ex_output \<noteq> []"
    by (simp add: ex_lines)
  have "m_lineOffset ex_loaded = 5 - 1
   \<and> lineForIndex ex_loaded \<lparr>row = 1, column = 0\<rparr> = 5
   \<and> lineForIndex ex_loaded \<lparr>row = 3, column = 0\<rparr> = lineForIndex ex_loaded \<lparr>row = 2, column = 0\<rparr> + 1"
    using C3_line_offset [OF ex_file ex_load ex_fit ne, of "\<lparr>row = 1, column = 0\<rparr>" 0 2]
    by (simp add: ex_lines ex_loaded_def query_defs)
  then show ?thesis
    using ex_file(1) ex_load ex_fit ne by blast
qed

subsection \<open>The displayed rows\<close>

text \<open>
  C4, as stated, fails: the load appends to the row list and does not empty it first.
  A second load of the example on the model that the first load left gives 8 rows, where
  the maximum minus the minimum plus 2 is 4, and row 4 is a second header.
\<close>

theorem C4_displayed_rows_counterexample:
  "setDisassembly Release ex_fs ex_output ex_loaded = Inr ex_reloaded
   \<and> rowCount False ex_reloaded = 8
   \<and> Max (set (qualifyingLines ex_output)) - Min (set (qualifyingLines ex_output)) + 2 = 4
   \<and> m_sourceCode ex_reloaded ! 4 = ''f()''"
proof -
  have "setDisassembly Release ex_fs ex_output ex_loaded = Inr ex_reloaded"
    by (simp add: load_defs ex_defs ex_reloaded_def insert_commute)
  moreover have "rowCount False ex_reloaded = 8" and "m_sourceCode ex_reloaded ! 4 = ''f()''"
    by (simp_all add: ex_reloaded_def rowCount_def)
  moreover have "Max (set (qualifyingLines ex_output)) - Min (set (qualifyingLines ex_output)) + 2 = 4"
    by (simp add: ex_lines)
  ultimately show ?thesis by blast
qed

text \<open>
  C4, amended. After a load that opens its file and runs to its end on a model whose row
  list is empty, as \<^const>\<open>clear\<close> leaves it, with line numbers that are C++ \<^verbatim>\<open>int\<close>s
  above \<^verbatim>\<open>INT_MIN\<close> and at least one qualifying entry, the row list holds exactly maximum minus minimum plus 2 rows: row 0
  is the label of the symbol, and the rows 1 to maximum minus minimum plus 1 are, in
  their order, the parts of the split file at the 0-based positions minimum minus 1 to
  maximum minus 1, so that row \<open>r\<close> shows the line \<open>r\<close> plus offset of the file.
\<close>

theorem C4_displayed_rows:
  assumes "sourceFileName d \<noteq> []"
    and "fs (m_sysroot s @ [separator] @ sourceFileName d) = Some content"
    and "setDisassembly build fs d s = Inr s'"
    and "lineNumbersFitInt d"
    and "qualifyingLines d \<noteq> []"
    and "m_sourceCode s = []"
  shows "rowCount False s'
           = Max (set (qualifyingLines d)) - Min (set (qualifyingLines d)) + 2
    \<and> m_sourceCode s' ! 0 = prettySymbol (symbol d)
    \<and> (1 \<le> r \<and> r \<le> Max (set (qualifyingLines d)) - Min (set (qualifyingLines d)) + 1
         \<longrightarrow> r + m_lineOffset s' - 1 = Min (set (qualifyingLines d)) - 1 + (r - 1)
           \<and> 0 \<le> r + m_lineOffset s' - 1
           \<and> r + m_lineOffset s' - 1 < int (length (qsplit LF content))
           \<and> m_sourceCode s' ! nat r = qsplit LF content ! nat (r + m_lineOffset s' - 1))
    \<and> m_sourceCode s' = prettySymbol (symbol d)
         # take (nat (Max (set (qualifyingLines d)) - Min (set (qualifyingLines d)) + 1))
             (drop (nat (Min (set (qualifyingLines d)) - 1)) (qsplit LF content))"
proof -
  have ld: "loadFile build content d s = Inr s'"
    using assms(1-3) by (simp add: setDisassembly_open)
  have rg: "lineNumbersInRange d"
    by (rule loadFile_Inr_in_range [OF ld assms(4,5)])
  note b = min_max_bounds [OF rg assms(5)]
  let ?mn = "Min (set (qualifyingLines d))"
  let ?mx = "Max (set (qualifyingLines d))"
  let ?ls = "qsplit LF content"
  have off: "m_lineOffset s' = ?mn - 1"
    by (rule loadFile_offset [OF ld rg assms(5)])
  have len: "?mx \<le> int (length ?ls)"
    by (rule loadFile_rows(2) [OF ld rg assms(5)])
  have sc: "m_sourceCode s' = prettySymbol (symbol d) # take (nat (?mx - ?mn + 1)) (drop (nat (?mn - 1)) ?ls)"
    using loadFile_rows(1) [OF ld rg assms(5)] assms(6) by simp
  have cnt: "rowCount False s' = ?mx - ?mn + 2"
    using b len by (simp add: rowCount_def sc)
  have row: "1 \<le> r \<Longrightarrow> r \<le> ?mx - ?mn + 1
      \<Longrightarrow> m_sourceCode s' ! nat r = ?ls ! nat (r + m_lineOffset s' - 1)"
  proof -
    assume r: "1 \<le> r" "r \<le> ?mx - ?mn + 1"
    have n: "nat r = Suc (nat (r - 1))"
      using r by linarith
    have k: "nat (r - 1) < nat (?mx - ?mn + 1)"
      using r by linarith
    have i: "nat (?mn - 1) + nat (r - 1) = nat (r + (?mn - 1) - 1)"
      using r b by linarith
    have "m_sourceCode s' ! nat r = take (nat (?mx - ?mn + 1)) (drop (nat (?mn - 1)) ?ls) ! nat (r - 1)"
      unfolding sc n by simp
    also have "\<dots> = drop (nat (?mn - 1)) ?ls ! nat (r - 1)"
      using k by simp
    also have "\<dots> = ?ls ! (nat (?mn - 1) + nat (r - 1))"
      using r b len by (intro nth_drop) linarith
    finally show ?thesis
      unfolding off i .
  qed
  have idx: "1 \<le> r \<Longrightarrow> r \<le> ?mx - ?mn + 1
      \<Longrightarrow> r + m_lineOffset s' - 1 = ?mn - 1 + (r - 1) \<and> 0 \<le> r + m_lineOffset s' - 1
        \<and> r + m_lineOffset s' - 1 < int (length ?ls)"
    using b len unfolding off by linarith
  have hd0: "m_sourceCode s' ! 0 = prettySymbol (symbol d)"
    by (simp add: sc)
  show ?thesis
    using cnt hd0 row idx sc by blast
qed

theorem C4_displayed_rows_witness:
  "sourceFileName ex_output \<noteq> []
   \<and> setDisassembly Release ex_fs ex_output ex_model = Inr ex_loaded
   \<and> lineNumbersFitInt ex_output
   \<and> qualifyingLines ex_output \<noteq> []
   \<and> m_sourceCode ex_model = []
   \<and> rowCount False ex_loaded = 7 - 5 + 2
   \<and> m_sourceCode ex_loaded ! 0 = ''f()''
   \<and> m_sourceCode ex_loaded ! 3 = qsplit LF ex_content ! 6
   \<and> m_sourceCode ex_loaded = [''f()'', ''l5'', ''l6'', ''l7'']"
proof -
  have ne: "qualifyingLines ex_output \<noteq> []"
    by (simp add: ex_lines)
  have em: "m_sourceCode ex_model = []"
    by (simp add: ex_defs)
  have off: "m_lineOffset ex_loaded = 4"
    by (simp add: ex_loaded_def)
  have "rowCount False ex_loaded = 7 - 5 + 2
   \<and> m_sourceCode ex_loaded ! 0 = ''f()''
   \<and> m_sourceCode ex_loaded ! 3 = qsplit LF ex_content ! 6"
    using C4_displayed_rows [OF ex_file ex_load ex_fit ne em, of 3]
    by (simp add: ex_lines off) (simp add: ex_output_def ex_symbol_def)
  moreover have "m_sourceCode ex_loaded = [''f()'', ''l5'', ''l6'', ''l7'']"
    by (simp add: ex_loaded_def)
  ultimately show ?thesis
    using ex_file(1) ex_load ex_fit ne em by blast
qed

subsection \<open>No qualifying line, or one line only\<close>

text \<open>
  C5, as stated, fails: a release build has no guard. With a disassembly whose only
  entry has no source line, the load on the loaded example model is not a no-op: it
  empties the valid lines, installs a fresh cost table, sets the offset to
  \<^verbatim>\<open>INT_MAX - 1\<close> and appends a header row.
\<close>

theorem C5_no_guard_in_release_counterexample:
  "sourceFileName ex_unresolved \<noteq> []
   \<and> ex_fs (m_sysroot ex_loaded @ [separator] @ sourceFileName ex_unresolved) = Some ex_content
   \<and> qualifyingLines ex_unresolved = []
   \<and> setDisassembly Release ex_fs ex_unresolved ex_loaded
       = Inr (ex_loaded\<lparr>m_validLineNumbers := {},
                m_costs := \<lparr>typeNames = [''cycles''], costs = [\<lambda>_. 0], totalCosts = [104]\<rparr>,
                m_lineOffset := 2147483646,
                m_sourceCode := [''f()'', ''l5'', ''l6'', ''l7'', ''f()'']\<rparr>)
   \<and> setDisassembly Release ex_fs ex_unresolved ex_loaded \<noteq> Inr ex_loaded"
proof -
  have "setDisassembly Release ex_fs ex_unresolved ex_loaded
       = Inr (ex_loaded\<lparr>m_validLineNumbers := {},
                m_costs := \<lparr>typeNames = [''cycles''], costs = [\<lambda>_. 0], totalCosts = [104]\<rparr>,
                m_lineOffset := 2147483646,
                m_sourceCode := [''f()'', ''l5'', ''l6'', ''l7'', ''f()'']\<rparr>)"
    by (simp add: load_defs ex_defs ex_unresolved_def)
  moreover have "ex_loaded\<lparr>m_validLineNumbers := {},
                m_costs := \<lparr>typeNames = [''cycles''], costs = [\<lambda>_. 0], totalCosts = [104]\<rparr>,
                m_lineOffset := 2147483646,
                m_sourceCode := [''f()'', ''l5'', ''l6'', ''l7'', ''f()'']\<rparr> \<noteq> ex_loaded"
  proof
    assume "ex_loaded\<lparr>m_validLineNumbers := {},
                m_costs := \<lparr>typeNames = [''cycles''], costs = [\<lambda>_. 0], totalCosts = [104]\<rparr>,
                m_lineOffset := 2147483646,
                m_sourceCode := [''f()'', ''l5'', ''l6'', ''l7'', ''f()'']\<rparr> = ex_loaded"
    then have "m_lineOffset (ex_loaded\<lparr>m_validLineNumbers := {},
                m_costs := \<lparr>typeNames = [''cycles''], costs = [\<lambda>_. 0], totalCosts = [104]\<rparr>,
                m_lineOffset := 2147483646,
                m_sourceCode := [''f()'', ''l5'', ''l6'', ''l7'', ''f()'']\<rparr>) = m_lineOffset ex_loaded"
      by simp
    then show False
      by (simp add: ex_loaded_def)
  qed
  moreover have "sourceFileName ex_unresolved \<noteq> []"
    and "ex_fs (m_sysroot ex_loaded @ [separator] @ sourceFileName ex_unresolved) = Some ex_content"
    and "qualifyingLines ex_unresolved = []"
    by (simp_all add: ex_unresolved_def ex_defs separator_def qualifyingLines_def)
  ultimately show ?thesis by simp
qed

text \<open>
  C5, amended. If a load that opens its file finds no qualifying line, or a minimum that
  is not below the maximum, a debug build stops at an assertion. A release build runs
  on: without a qualifying line it empties the valid lines, installs a fresh cost
  table, sets the offset to \<^verbatim>\<open>INT_MAX - 1\<close> and appends the header row alone; with
  qualifying entries, which are then all on one line, it loads that one line as any load
  does. A load that returns has added at least one row: the row list never shrinks.
\<close>

theorem C5_assertions_only_in_debug:
  assumes "sourceFileName d \<noteq> []"
    and "fs (m_sysroot s @ [separator] @ sourceFileName d) = Some content"
    and "lineNumbersInRange d"
    and "qualifyingLines d = []
         \<or> \<not> Min (set (qualifyingLines d)) < Max (set (qualifyingLines d))"
  shows "setDisassembly Debug fs d s = Inl AssertionFailed
    \<and> (qualifyingLines d = [] \<longrightarrow>
         setDisassembly Release fs d s
           = Inr (s\<lparr>m_validLineNumbers := {},
                    m_costs := initializeCostsFrom (selfCosts (m_callerCalleeResults s)) emptyCosts,
                    m_lineOffset := INT_MAX - 1,
                    m_sourceCode := m_sourceCode s @ [prettySymbol (symbol d)]\<rparr>))
    \<and> (qualifyingLines d \<noteq> [] \<longrightarrow>
         setDisassembly Release fs d s
           = (if Max (set (qualifyingLines d)) \<le> int (length (qsplit LF content))
              then Inr (s\<lparr>m_validLineNumbers := {Max (set (qualifyingLines d))},
                    m_costs := scannedCosts s d,
                    m_lineOffset := Max (set (qualifyingLines d)) - 1,
                    m_sourceCode := m_sourceCode s @ [prettySymbol (symbol d),
                       qsplit LF content ! nat (Max (set (qualifyingLines d)) - 1)]\<rparr>)
              else Inl IndexOutOfRange))
    \<and> (setDisassembly Release fs d s = Inr s' \<longrightarrow> rowCount False s < rowCount False s')"
proof -
  have op: "setDisassembly build fs d s = loadFile build content d s" for build
    using assms(1,2) by (rule setDisassembly_open)
  show ?thesis
  proof (cases "qualifyingLines d = []")
    case True
    show ?thesis
      unfolding op loadFile_no_qualifying [OF True] scannedCosts_no_qualifying [OF True]
      using True by (auto simp: rowCount_def)
  next
    case False
    note b = min_max_bounds [OF assms(3) False]
    have eq: "Min (set (qualifyingLines d)) = Max (set (qualifyingLines d))"
      using assms(4) False b(2) by linarith
    have "\<And>l. l \<in> set (qualifyingLines d) \<Longrightarrow> l = Max (set (qualifyingLines d))"
    proof -
      fix l assume l: "l \<in> set (qualifyingLines d)"
      then have "Min (set (qualifyingLines d)) \<le> l" and "l \<le> Max (set (qualifyingLines d))"
        by simp_all
      then show "l = Max (set (qualifyingLines d))"
        using eq by linarith
    qed
    moreover have "Max (set (qualifyingLines d)) \<in> set (qualifyingLines d)"
      using False by (intro Max_in) simp_all
    ultimately have st: "set (qualifyingLines d) = {Max (set (qualifyingLines d))}"
      by blast
    have tk: "Max (set (qualifyingLines d)) \<le> int (length (qsplit LF content)) \<Longrightarrow>
        take (Suc 0) (drop (nat (Max (set (qualifyingLines d)) - 1)) (qsplit LF content))
          = [qsplit LF content ! nat (Max (set (qualifyingLines d)) - 1)]"
    proof -
      assume "Max (set (qualifyingLines d)) \<le> int (length (qsplit LF content))"
      then have "nat (Max (set (qualifyingLines d)) - 1) < length (qsplit LF content)"
        using b eq by linarith
      then show ?thesis
        by (simp add: take_Suc_conv_app_nth Cons_nth_drop_Suc [symmetric])
    qed
    have dbg: "setDisassembly Debug fs d s = Inl AssertionFailed"
      unfolding op loadFile_qualifying [OF assms(3) False] using eq by simp
    have rel: "setDisassembly Release fs d s
           = (if Max (set (qualifyingLines d)) \<le> int (length (qsplit LF content))
              then Inr (s\<lparr>m_validLineNumbers := {Max (set (qualifyingLines d))},
                    m_costs := scannedCosts s d,
                    m_lineOffset := Max (set (qualifyingLines d)) - 1,
                    m_sourceCode := m_sourceCode s @ [prettySymbol (symbol d),
                       qsplit LF content ! nat (Max (set (qualifyingLines d)) - 1)]\<rparr>)
              else Inl IndexOutOfRange)"
      unfolding op loadFile_qualifying [OF assms(3) False] eq
      using tk st by simp
    have grow: "setDisassembly Release fs d s = Inr s' \<Longrightarrow> rowCount False s < rowCount False s'"
      unfolding rel by (auto simp: rowCount_def split: if_splits)
    show ?thesis
      using dbg rel grow False by blast
  qed
qed

theorem C5_assertions_only_in_debug_witness:
  "sourceFileName ex_unresolved \<noteq> []
   \<and> lineNumbersInRange ex_unresolved
   \<and> qualifyingLines ex_unresolved = []
   \<and> setDisassembly Debug ex_fs ex_unresolved ex_model = Inl AssertionFailed
   \<and> setDisassembly Release ex_fs ex_unresolved ex_model
       = Inr (ex_model\<lparr>m_validLineNumbers := {},
                m_costs := \<lparr>typeNames = [''cycles''], costs = [\<lambda>_. 0], totalCosts = [104]\<rparr>,
                m_lineOffset := 2147483646,
                m_sourceCode := [''f()'']\<rparr>)
   \<and> lineNumbersInRange ex_one_line
   \<and> \<not> Min (set (qualifyingLines ex_one_line)) < Max (set (qualifyingLines ex_one_line))
   \<and> setDisassembly Debug ex_fs ex_one_line ex_model = Inl AssertionFailed
   \<and> setDisassembly Release ex_fs ex_one_line ex_model
       = Inr (ex_model\<lparr>m_validLineNumbers := {5},
                m_costs := scannedCosts ex_model ex_one_line,
                m_lineOffset := 4,
                m_sourceCode := [''f()'', ''l5'']\<rparr>)"
proof -
  have f1: "sourceFileName ex_unresolved \<noteq> []"
    and f2: "ex_fs (m_sysroot ex_model @ [separator] @ sourceFileName ex_unresolved)
              = Some ex_content"
    and r1: "lineNumbersInRange ex_unresolved"
    and q1: "qualifyingLines ex_unresolved = []"
    by (simp_all add: ex_unresolved_def ex_defs separator_def qualifyingLines_def
        lineNumbersInRange_def INT_MAX_def)
  have g1: "sourceFileName ex_one_line \<noteq> []"
    and g2: "ex_fs (m_sysroot ex_model @ [separator] @ sourceFileName ex_one_line)
              = Some ex_content"
    and r2: "lineNumbersInRange ex_one_line"
    and q2: "qualifyingLines ex_one_line = [5, 5]"
    by (simp_all add: ex_one_line_def ex_defs separator_def qualifyingLines_def
        lineNumbersInRange_def INT_MAX_def)
  have h1: "qualifyingLines ex_unresolved = []
         \<or> \<not> Min (set (qualifyingLines ex_unresolved)) < Max (set (qualifyingLines ex_unresolved))"
    using q1 by simp
  have h2: "qualifyingLines ex_one_line = []
         \<or> \<not> Min (set (qualifyingLines ex_one_line)) < Max (set (qualifyingLines ex_one_line))"
    by (simp add: q2)
  have a: "setDisassembly Debug ex_fs ex_unresolved ex_model = Inl AssertionFailed
   \<and> setDisassembly Release ex_fs ex_unresolved ex_model
       = Inr (ex_model\<lparr>m_validLineNumbers := {},
                m_costs := \<lparr>typeNames = [''cycles''], costs = [\<lambda>_. 0], totalCosts = [104]\<rparr>,
                m_lineOffset := 2147483646,
                m_sourceCode := [''f()'']\<rparr>)"
    using C5_assertions_only_in_debug [where d = ex_unresolved and fs = ex_fs and s = ex_model
        and content = ex_content, OF f1 f2 r1 h1]
    by (simp add: q1) (simp add: ex_defs ex_unresolved_def initializeCostsFrom_def emptyCosts_def
        INT_MAX_def)
  have b: "setDisassembly Debug ex_fs ex_one_line ex_model = Inl AssertionFailed
   \<and> setDisassembly Release ex_fs ex_one_line ex_model
       = Inr (ex_model\<lparr>m_validLineNumbers := {5},
                m_costs := scannedCosts ex_model ex_one_line,
                m_lineOffset := 4,
                m_sourceCode := [''f()'', ''l5'']\<rparr>)"
    using C5_assertions_only_in_debug [where d = ex_one_line and fs = ex_fs and s = ex_model
        and content = ex_content, OF g1 g2 r2 h2]
    by (simp add: q2) (simp add: ex_defs ex_one_line_def LF_def qsplit_def)
  have m: "\<not> Min (set (qualifyingLines ex_one_line)) < Max (set (qualifyingLines ex_one_line))"
    by (simp add: q2)
  show ?thesis
    using f1 r1 q1 a r2 m b by blast
qed

subsection \<open>Reset\<close>

text \<open>
  C6, as stated, fails: \<^const>\<open>clear\<close> empties the row list and leaves everything else.
  On the loaded example the column count after it is 3, and the valid lines, the costs
  and the offset are those of the load.
\<close>

theorem C6_clear_counterexample:
  "columnCount False (clear ex_loaded) = 3
   \<and> columnCount False (clear ex_loaded) \<noteq> 2
   \<and> m_validLineNumbers (clear ex_loaded) = {5, 7}
   \<and> Costs_cost (m_costs (clear ex_loaded)) 0 5 = 5
   \<and> m_lineOffset (clear ex_loaded) = 4"
  by (simp add: clear_def ex_defs query_defs numTypes_def Costs_cost_def)

text \<open>
  C6, amended. After \<^const>\<open>clear\<close> the row count is 0 and every cell query gives the
  empty value. The column count is what it was, 2 plus the count of cost types, hence 2
  where there is no cost type; the valid lines, the costs and the offset keep their
  values.
\<close>

theorem C6_clear:
  "clear s = s\<lparr>m_sourceCode := []\<rparr>
   \<and> rowCount parentValid (clear s) = 0
   \<and> data fmt (clear s) index role = Invalid
   \<and> columnCount parentValid (clear s) = columnCount parentValid s
   \<and> (m_numTypes s = 0 \<longrightarrow> columnCount False (clear s) = 2)
   \<and> m_validLineNumbers (clear s) = m_validLineNumbers s
   \<and> m_costs (clear s) = m_costs s
   \<and> m_lineOffset (clear s) = m_lineOffset s"
  by (simp add: clear_def rowCount_def columnCount_def data_def hasIndex_def add32_def int32_def
      COLUMN_COUNT_def)

theorem C6_clear_witness:
  "m_numTypes initialModel = 0
   \<and> rowCount False (clear initialModel) = 0
   \<and> columnCount False (clear initialModel) = 2
   \<and> rowCount False (clear ex_loaded) = 0
   \<and> columnCount False (clear ex_loaded) = columnCount False ex_loaded"
proof -
  have z: "m_numTypes initialModel = 0"
    by (simp add: initialModel_def)
  show ?thesis
    using C6_clear [of initialModel False ex_fmt "\<lparr>row = 0, column = 0\<rparr>" DisplayRole]
      C6_clear [of ex_loaded False ex_fmt "\<lparr>row = 0, column = 0\<rparr>" DisplayRole] z
    by blast
qed

subsection \<open>Setting the cost context\<close>

text \<open>
  C7, as stated, fails: setting the cost context clears neither the rows nor the costs.
  On the loaded example the row count after it is 4 and line 5 still has cost 5.
\<close>

theorem C7_setCallerCalleeResults_counterexample:
  "rowCount False (setCallerCalleeResults ex_results ex_loaded) = 4
   \<and> rowCount False (setCallerCalleeResults ex_results ex_loaded) \<noteq> 0
   \<and> Costs_cost (m_costs (setCallerCalleeResults ex_results ex_loaded)) 0 5 = 5"
  by (simp add: ex_defs query_defs Costs_cost_def)

text \<open>
  C7, amended. Setting the cost context replaces the cost context and the count of cost
  types and nothing else: the rows, the accumulated costs, the valid lines, the offset,
  the highlighted line and the source root are those of before. The row count is
  unchanged, and the column count is 2 plus the new count of cost types (C++ \<^verbatim>\<open>int\<close>
  addition, exact for a count up to \<^verbatim>\<open>INT_MAX - 2\<close>).
\<close>

theorem C7_setCallerCalleeResults:
  "setCallerCalleeResults results s
     = s\<lparr>m_callerCalleeResults := results, m_numTypes := numTypes (selfCosts results)\<rparr>
   \<and> m_callerCalleeResults (setCallerCalleeResults results s) = results
   \<and> m_numTypes (setCallerCalleeResults results s) = numTypes (selfCosts results)
   \<and> m_sourceCode (setCallerCalleeResults results s) = m_sourceCode s
   \<and> m_costs (setCallerCalleeResults results s) = m_costs s
   \<and> m_validLineNumbers (setCallerCalleeResults results s) = m_validLineNumbers s
   \<and> m_lineOffset (setCallerCalleeResults results s) = m_lineOffset s
   \<and> m_highlightLine (setCallerCalleeResults results s) = m_highlightLine s
   \<and> m_sysroot (setCallerCalleeResults results s) = m_sysroot s
   \<and> rowCount parentValid (setCallerCalleeResults results s) = rowCount parentValid s
   \<and> columnCount False (setCallerCalleeResults results s)
       = add32 COLUMN_COUNT (numTypes (selfCosts results))
   \<and> (numTypes (selfCosts results) \<le> INT_MAX - 2 \<longrightarrow>
        columnCount False (setCallerCalleeResults results s)
          = 2 + numTypes (selfCosts results))"
  by (simp add: setCallerCalleeResults_def rowCount_def columnCount_def add32_def int32_def
      COLUMN_COUNT_def INT_MAX_def numTypes_def)

theorem C7_setCallerCalleeResults_witness:
  "numTypes (selfCosts ex_results) \<le> INT_MAX - 2
   \<and> columnCount False (setCallerCalleeResults ex_results ex_loaded) = 2 + 1
   \<and> rowCount False (setCallerCalleeResults ex_results ex_loaded) = rowCount False ex_loaded"
proof -
  have n: "numTypes (selfCosts ex_results) = 1"
    by (simp add: ex_results_def numTypes_def)
  have le: "numTypes (selfCosts ex_results) \<le> INT_MAX - 2"
    by (simp add: n INT_MAX_def)
  have "columnCount False (setCallerCalleeResults ex_results ex_loaded)
          = 2 + numTypes (selfCosts ex_results)
      \<and> rowCount False (setCallerCalleeResults ex_results ex_loaded) = rowCount False ex_loaded"
    using C7_setCallerCalleeResults [of ex_results ex_loaded False] le by blast
  then show ?thesis
    using le by (simp add: n)
qed

subsection \<open>Valid lines\<close>

text \<open>
  C8. After a load that opens its file and runs to its end, the valid lines are exactly
  the lines of the qualifying entries, whatever the cost context records for their
  addresses (in the example line 7 is valid and has cost 0). For every index inside
  the table, the reachable-line query returns the row plus the offset if that line is
  valid and -1 if it is not; the sum is C++ \<^verbatim>\<open>int\<close> addition, exact wherever it fits
  32 bits.
\<close>

theorem C8_valid_lines:
  assumes "sourceFileName d \<noteq> []"
    and "fs (m_sysroot s @ [separator] @ sourceFileName d) = Some content"
    and "setDisassembly build fs d s = Inr s'"
  shows "m_validLineNumbers s' = set (qualifyingLines d)
    \<and> (hasIndex s' (row index) (column index) False \<longrightarrow>
         data fmt s' index RainbowLineNumberRole
           = (if add32 (row index) (m_lineOffset s') \<in> set (qualifyingLines d)
              then QInt (add32 (row index) (m_lineOffset s')) else QInt (- 1)))
    \<and> (hasIndex s' (row index) (column index) False
         \<and> in_int32 (row index + m_lineOffset s') \<longrightarrow>
         data fmt s' index RainbowLineNumberRole
           = (if row index + m_lineOffset s' \<in> set (qualifyingLines d)
              then QInt (row index + m_lineOffset s') else QInt (- 1)))"
proof -
  have ld: "loadFile build content d s = Inr s'"
    using assms by (simp add: setDisassembly_open)
  have v: "m_validLineNumbers s' = set (qualifyingLines d)"
    by (rule loadFile_valid [OF ld])
  have q: "hasIndex s' (row index) (column index) False \<Longrightarrow>
         data fmt s' index RainbowLineNumberRole
           = (if add32 (row index) (m_lineOffset s') \<in> set (qualifyingLines d)
              then QInt (add32 (row index) (m_lineOffset s')) else QInt (- 1))"
    unfolding v [symmetric] by (auto simp: data_def hasIndex_def rowCount_def split: if_splits)
  show ?thesis
    using v q by (simp add: add32_exact)
qed

theorem C8_valid_lines_witness:
  "sourceFileName ex_output \<noteq> []
   \<and> setDisassembly Release ex_fs ex_output ex_model = Inr ex_loaded
   \<and> m_validLineNumbers ex_loaded = {5, 7}
   \<and> Costs_cost (m_costs ex_loaded) 0 7 = 0
   \<and> hasIndex ex_loaded 3 0 False
   \<and> data ex_fmt ex_loaded \<lparr>row = 3, column = 0\<rparr> RainbowLineNumberRole = QInt 7
   \<and> hasIndex ex_loaded 2 0 False
   \<and> data ex_fmt ex_loaded \<lparr>row = 2, column = 0\<rparr> RainbowLineNumberRole = QInt (- 1)"
proof -
  have off: "m_lineOffset ex_loaded = 4"
    by (simp add: ex_loaded_def)
  have h3: "hasIndex ex_loaded 3 0 False" and h2: "hasIndex ex_loaded 2 0 False"
    by (simp_all add: ex_defs query_defs numTypes_def)
  have c: "Costs_cost (m_costs ex_loaded) 0 7 = 0"
    by (simp add: ex_loaded_def Costs_cost_def)
  have a: "m_validLineNumbers ex_loaded = {5, 7}
     \<and> data ex_fmt ex_loaded \<lparr>row = 3, column = 0\<rparr> RainbowLineNumberRole = QInt 7"
    using C8_valid_lines [where d = ex_output and fs = ex_fs and s = ex_model
        and content = ex_content and s' = ex_loaded and build = Release
        and index = "\<lparr>row = 3, column = 0\<rparr>" and fmt = ex_fmt, OF ex_file ex_load] h3
    by (simp add: ex_lines off in_int32_def INT_MIN_def INT_MAX_def add32_def int32_def)
  have b: "data ex_fmt ex_loaded \<lparr>row = 2, column = 0\<rparr> RainbowLineNumberRole = QInt (- 1)"
    using C8_valid_lines [where d = ex_output and fs = ex_fs and s = ex_model
        and content = ex_content and s' = ex_loaded and build = Release
        and index = "\<lparr>row = 2, column = 0\<rparr>" and fmt = ex_fmt, OF ex_file ex_load] h2
    by (simp add: ex_lines off in_int32_def INT_MIN_def INT_MAX_def add32_def int32_def)
  show ?thesis
    using ex_file(1) ex_load a c h3 h2 b by blast
qed

subsection \<open>Highlighting\<close>

text \<open>
  C9. The highlight operation replaces the highlighted line and nothing else. After it,
  the highlight query at an index inside the table is true exactly if the row plus the
  offset is the highlighted line (C++ \<^verbatim>\<open>int\<close> addition, exact wherever it fits 32
  bits), and the cost and total cost queries, like the query of every role other than
  the highlight, give what they gave before.
\<close>

theorem C9_highlight:
  "updateHighlighting l s = s\<lparr>m_highlightLine := l\<rparr>
   \<and> (hasIndex s (row index) (column index) False \<longrightarrow>
        data fmt (updateHighlighting l s) index HighlightRole
          = QBool (add32 (row index) (m_lineOffset s) = l))
   \<and> (hasIndex s (row index) (column index) False \<and> in_int32 (row index + m_lineOffset s) \<longrightarrow>
        data fmt (updateHighlighting l s) index HighlightRole
          = QBool (row index + m_lineOffset s = l))
   \<and> data fmt (updateHighlighting l s) index CostRole = data fmt s index CostRole
   \<and> data fmt (updateHighlighting l s) index TotalCostRole = data fmt s index TotalCostRole
   \<and> (role \<noteq> HighlightRole \<longrightarrow>
        data fmt (updateHighlighting l s) index role = data fmt s index role)"
proof -
  have h: "hasIndex s (row index) (column index) False \<Longrightarrow>
        data fmt (updateHighlighting l s) index HighlightRole
          = QBool (add32 (row index) (m_lineOffset s) = l)"
    by (auto simp: data_def hasIndex_def rowCount_def columnCount_def updateHighlighting_def
        split: if_splits)
  have f: "role \<noteq> HighlightRole \<Longrightarrow>
        data fmt (updateHighlighting l s) index role = data fmt s index role" for role
    unfolding data_def hasIndex_highlight by (simp add: updateHighlighting_def)
  show ?thesis
    using h f [of CostRole] f [of TotalCostRole] f [of role]
    by (simp add: add32_exact updateHighlighting_def)
qed

theorem C9_highlight_witness:
  "hasIndex ex_loaded 3 0 False
   \<and> in_int32 (3 + m_lineOffset ex_loaded)
   \<and> data ex_fmt (updateHighlighting 7 ex_loaded) \<lparr>row = 3, column = 0\<rparr> HighlightRole = QBool True
   \<and> hasIndex ex_loaded 1 2 False
   \<and> data ex_fmt (updateHighlighting 7 ex_loaded) \<lparr>row = 1, column = 2\<rparr> HighlightRole = QBool False
   \<and> data ex_fmt (updateHighlighting 7 ex_loaded) \<lparr>row = 1, column = 2\<rparr> CostRole = QLongLong 5"
proof -
  have off: "m_lineOffset ex_loaded = 4"
    by (simp add: ex_loaded_def)
  have h3: "hasIndex ex_loaded 3 0 False" and h1: "hasIndex ex_loaded 1 2 False"
    by (simp_all add: ex_defs query_defs numTypes_def)
  have r3: "in_int32 (3 + m_lineOffset ex_loaded)" and r1: "in_int32 (1 + m_lineOffset ex_loaded)"
    by (simp_all add: off in_int32_def INT_MIN_def INT_MAX_def)
  have c: "data ex_fmt ex_loaded \<lparr>row = 1, column = 2\<rparr> CostRole = QLongLong 5"
    using h1 by (simp add: data_def) (simp add: ex_defs query_defs numTypes_def Costs_cost_def)
  have a0: "data ex_fmt (updateHighlighting 7 ex_loaded) \<lparr>row = 3, column = 0\<rparr> HighlightRole
      = QBool (row \<lparr>row = 3, column = 0\<rparr> + m_lineOffset ex_loaded = 7)"
  proof -
    have "hasIndex ex_loaded (row \<lparr>row = 3, column = 0\<rparr>) (column \<lparr>row = 3, column = 0\<rparr>) False"
      and "in_int32 (row \<lparr>row = 3, column = 0\<rparr> + m_lineOffset ex_loaded)"
      using h3 r3 by simp_all
    then show ?thesis
      using C9_highlight [of 7 ex_loaded "\<lparr>row = 3, column = 0\<rparr>" ex_fmt CostRole] by blast
  qed
  have b0: "data ex_fmt (updateHighlighting 7 ex_loaded) \<lparr>row = 1, column = 2\<rparr> HighlightRole
      = QBool (row \<lparr>row = 1, column = 2\<rparr> + m_lineOffset ex_loaded = 7)
    \<and> data ex_fmt (updateHighlighting 7 ex_loaded) \<lparr>row = 1, column = 2\<rparr> CostRole
      = data ex_fmt ex_loaded \<lparr>row = 1, column = 2\<rparr> CostRole"
  proof -
    have "hasIndex ex_loaded (row \<lparr>row = 1, column = 2\<rparr>) (column \<lparr>row = 1, column = 2\<rparr>) False"
      and "in_int32 (row \<lparr>row = 1, column = 2\<rparr> + m_lineOffset ex_loaded)"
      using h1 r1 by simp_all
    then show ?thesis
      using C9_highlight [of 7 ex_loaded "\<lparr>row = 1, column = 2\<rparr>" ex_fmt CostRole] by blast
  qed
  have a: "data ex_fmt (updateHighlighting 7 ex_loaded) \<lparr>row = 3, column = 0\<rparr> HighlightRole = QBool True"
    using a0 by (simp add: off)
  have b: "data ex_fmt (updateHighlighting 7 ex_loaded) \<lparr>row = 1, column = 2\<rparr> HighlightRole = QBool False
     \<and> data ex_fmt (updateHighlighting 7 ex_loaded) \<lparr>row = 1, column = 2\<rparr> CostRole = QLongLong 5"
    using b0 c by (simp add: off)
  show ?thesis
    using h3 r3 a h1 b by blast
qed

subsection \<open>The length of the file\<close>

text \<open>
  C10. The load indexes the split file at the positions minimum minus 1 to maximum
  minus 1 and does not check them. For a load that opens its file, with line numbers in
  range: a release build ends in the index error exactly when there is a qualifying
  entry and the split file has fewer parts than the maximum qualifying line; in that
  case no build returns a model; and when the split file has at least as many parts as
  the maximum, or there is no qualifying entry, the index error is not reached.
\<close>

theorem C10_file_length_precondition:
  assumes "sourceFileName d \<noteq> []"
    and "fs (m_sysroot s @ [separator] @ sourceFileName d) = Some content"
    and "lineNumbersInRange d"
  shows "(setDisassembly Release fs d s = Inl IndexOutOfRange
          \<longleftrightarrow> qualifyingLines d \<noteq> []
              \<and> int (length (qsplit LF content)) < Max (set (qualifyingLines d)))
    \<and> (qualifyingLines d \<noteq> []
         \<and> int (length (qsplit LF content)) < Max (set (qualifyingLines d))
        \<longrightarrow> setDisassembly build fs d s \<noteq> Inr s')
    \<and> (qualifyingLines d = []
         \<or> Max (set (qualifyingLines d)) \<le> int (length (qsplit LF content))
        \<longrightarrow> setDisassembly build fs d s \<noteq> Inl IndexOutOfRange)"
proof -
  have op: "setDisassembly build fs d s = loadFile build content d s" for build
    using assms(1,2) by (rule setDisassembly_open)
  show ?thesis
  proof (cases "qualifyingLines d = []")
    case True
    show ?thesis
      unfolding op loadFile_no_qualifying [OF True] using True by simp
  next
    case False
    define fits where "fits \<longleftrightarrow> Max (set (qualifyingLines d)) \<le> int (length (qsplit LF content))"
    have nf: "int (length (qsplit LF content)) < Max (set (qualifyingLines d)) \<longleftrightarrow> \<not> fits"
      unfolding fits_def by linarith
    have ld: "\<exists>x. loadFile build content d s =
       (if build = Debug \<and> \<not> Min (set (qualifyingLines d)) < Max (set (qualifyingLines d))
        then Inl AssertionFailed else if fits then Inr x else Inl IndexOutOfRange)" for build
      unfolding loadFile_qualifying [OF assms(3) False] fits_def by blast
    have r: "setDisassembly Release fs d s = Inl IndexOutOfRange \<longleftrightarrow> \<not> fits"
      using ld [of Release] unfolding op by (auto split: if_splits)
    have n: "\<not> fits \<Longrightarrow> setDisassembly build fs d s \<noteq> Inr s'"
      using ld [of build] unfolding op by (auto split: if_splits)
    have u: "fits \<Longrightarrow> setDisassembly build fs d s \<noteq> Inl IndexOutOfRange"
      using ld [of build] unfolding op by (auto split: if_splits)
    have u': "Max (set (qualifyingLines d)) \<le> int (length (qsplit LF content))
        \<Longrightarrow> setDisassembly build fs d s \<noteq> Inl IndexOutOfRange"
      using u unfolding fits_def .
    show ?thesis
      unfolding nf using False r n u' by blast
  qed
qed

theorem C10_file_length_precondition_witness:
  "sourceFileName ex_output \<noteq> []
   \<and> ex_short_fs (m_sysroot ex_model @ [separator] @ sourceFileName ex_output)
       = Some (''l1'' @ [LF] @ ''l2'')
   \<and> lineNumbersInRange ex_output
   \<and> int (length (qsplit LF (''l1'' @ [LF] @ ''l2''))) < Max (set (qualifyingLines ex_output))
   \<and> setDisassembly Release ex_short_fs ex_output ex_model = Inl IndexOutOfRange
   \<and> setDisassembly Debug ex_short_fs ex_output ex_model \<noteq> Inr ex_loaded
   \<and> Max (set (qualifyingLines ex_output)) \<le> int (length (qsplit LF ex_content))
   \<and> setDisassembly Release ex_fs ex_output ex_model \<noteq> Inl IndexOutOfRange"
proof -
  have f2: "ex_short_fs (m_sysroot ex_model @ [separator] @ sourceFileName ex_output)
       = Some (''l1'' @ [LF] @ ''l2'')"
    by (simp add: ex_defs ex_short_fs_def separator_def)
  have short: "int (length (qsplit LF (''l1'' @ [LF] @ ''l2''))) < Max (set (qualifyingLines ex_output))"
    by (simp add: ex_lines qsplit_def LF_def)
  have long: "Max (set (qualifyingLines ex_output)) \<le> int (length (qsplit LF ex_content))"
    by (simp add: ex_lines qsplit_def LF_def ex_content_def)
  have ne: "qualifyingLines ex_output \<noteq> []"
    by (simp add: ex_lines)
  have a: "setDisassembly Release ex_short_fs ex_output ex_model = Inl IndexOutOfRange
   \<and> setDisassembly Debug ex_short_fs ex_output ex_model \<noteq> Inr ex_loaded"
    using C10_file_length_precondition [where d = ex_output and fs = ex_short_fs
        and s = ex_model and content = "''l1'' @ [LF] @ ''l2''" and build = Debug
        and s' = ex_loaded, OF ex_file(1) f2 ex_lines(1)] short ne
    by blast
  have b: "setDisassembly Release ex_fs ex_output ex_model \<noteq> Inl IndexOutOfRange"
    using C10_file_length_precondition [where d = ex_output and fs = ex_fs
        and s = ex_model and content = ex_content and build = Release
        and s' = ex_loaded, OF ex_file ex_lines(1)] long
    by blast
  show ?thesis
    using ex_file(1) f2 ex_lines(1) short a long b by blast
qed

end
